theory Spec2Isabelle
  imports Complex_Main "HOL-Library.Multiset"
begin

section \<open>Values, errors and the data model (models.py)\<close>

text \<open>
  Python exceptions are values of \<open>error\<close>; a function that may raise returns
  \<open>error + 'a\<close>, with \<open>Inl\<close> for the exception. A Python float is a rational number. The
  evaluators and the first form of the report compute with these numbers exactly; the
  second form of the report rounds every sum and quotient as IEEE 754 does.
\<close>

datatype error =
    ValueError string
  | TypeError string
  | KeyError string
  | ValidationError string
  | OtherError string

text \<open>
  A field declared \<open>Any\<close> (\<open>expected_answer\<close>). The evaluators do two things with such a
  value: they test \<open>isinstance(v, str)\<close> and they take \<open>str(v)\<close>. A value that is a
  \<open>str\<close> is \<open>Str s\<close>; any other Python value is \<open>NonStr t\<close>, where \<open>t\<close> is the text
  that \<open>str\<close> gives for it. So \<open>None\<close> is \<open>NonStr ''None''\<close> and the integer 42 is
  \<open>NonStr ''42''\<close>.
\<close>

datatype pyany = Str string | NonStr string

definition py_None :: pyany where
  "py_None = NonStr ''None''"

fun is_str :: "pyany \<Rightarrow> bool" where
  "is_str (Str s) = True"
| "is_str (NonStr t) = False"

fun py_str :: "pyany \<Rightarrow> string" where
  "py_str (Str s) = s"
| "py_str (NonStr t) = t"

record Evaluation =
  type :: string
  expected_answer :: pyany
  acceptable_variations :: "string list option"
  regex_pattern :: "string option"

text \<open>
  The constructor of the pydantic model \<open>Evaluation\<close>, called with keyword arguments of
  the declared field types (an absent argument is \<open>None\<close> here). \<open>type\<close> is the only
  required field; the other three default to \<open>None\<close>. The class declares no validator.
\<close>

definition Evaluation_init ::
  "string option \<Rightarrow> pyany option \<Rightarrow> string list option \<Rightarrow> string option \<Rightarrow> error + Evaluation"
where
  "Evaluation_init ty ea av rp =
     (case ty of
        None \<Rightarrow> Inl (ValidationError ''type: Field required'')
      | Some t \<Rightarrow>
          Inr \<lparr>type = t,
               expected_answer = (case ea of None \<Rightarrow> py_None | Some v \<Rightarrow> v),
               acceptable_variations = av,
               regex_pattern = rp\<rparr>)"

section \<open>Strings: \<open>str.strip\<close> and \<open>str.lower\<close>\<close>

text \<open>
  Strings are lists of 8-bit characters (code points below 256). \<open>str.strip()\<close> without
  argument removes the leading and trailing characters for which \<open>str.isspace\<close> holds:
  below 256 these are the code points 9 to 13, 28 to 32, 133 and 160.
\<close>

definition is_space :: "char \<Rightarrow> bool" where
  "is_space c =
     (let n = (of_char c :: nat)
      in (9 \<le> n \<and> n \<le> 13) \<or> (28 \<le> n \<and> n \<le> 32) \<or> n = 133 \<or> n = 160)"

definition py_strip :: "string \<Rightarrow> string" where
  "py_strip s = rev (dropWhile is_space (rev (dropWhile is_space s)))"

definition lower_char :: "char \<Rightarrow> char" where
  "lower_char c =
     (let n = (of_char c :: nat) in if 65 \<le> n \<and> n \<le> 90 then char_of (n + 32) else c)"

definition py_lower :: "string \<Rightarrow> string" where
  "py_lower s = map lower_char s"

section \<open>The external libraries\<close>

text \<open>
  The evaluators call three libraries that are not part of the repository. They are
  parameters of the model:
  \<^item> \<open>re_search p s\<close> is \<open>bool(re.search(p, s))\<close>: whether the pattern matches somewhere in
    the string (a match object is always true); \<open>Inl\<close> is the \<open>re.error\<close> raised for a
    pattern that does not compile;
  \<^item> \<open>stem\<close> is the Porter stemmer that \<open>RougeScorer(use_stemmer=True)\<close> applies to words;
  \<^item> \<open>bert_f1 c r\<close> is the F1 value that \<open>bert_score.score([c], [r], lang="en")\<close> returns
    for the single candidate \<open>c\<close> and reference \<open>r\<close>.
\<close>

record externals =
  re_search :: "string \<Rightarrow> string \<Rightarrow> error + bool"
  stem :: "string \<Rightarrow> string"
  bert_f1 :: "string \<Rightarrow> string \<Rightarrow> rat"

subsection \<open>ROUGE-L as \<open>rouge_score\<close> computes it\<close>

text \<open>
  \<open>RougeScorer(["rougeL"], use_stemmer=True).score(target, prediction)["rougeL"].fmeasure\<close>,
  following the package \<open>rouge_score\<close> (\<open>tokenize.py\<close>, \<open>rouge_scorer.py\<close>, \<open>scoring.py\<close>):
  the text is lower-cased, every run of characters outside \<open>[a-z0-9]\<close> becomes one space,
  the text is split at the spaces, words longer than three characters are stemmed, and
  the tokens that do not match \<open>^[a-z0-9]+$\<close> are dropped. The score is the F-measure of
  the longest common subsequence of the two token lists.
\<close>

definition is_alnum :: "char \<Rightarrow> bool" where
  "is_alnum c =
     (let n = (of_char c :: nat) in (97 \<le> n \<and> n \<le> 122) \<or> (48 \<le> n \<and> n \<le> 57))"

function sub_non_alnum :: "string \<Rightarrow> string" where
  "sub_non_alnum [] = []"
| "sub_non_alnum (c # cs) =
     (if is_alnum c then c # sub_non_alnum cs
      else CHR '' '' # sub_non_alnum (dropWhile (\<lambda>d. \<not> is_alnum d) cs))"
  by pat_completeness auto
termination
  by (relation "measure length") (auto simp: le_imp_less_Suc length_dropWhile_le)

fun split_spaces :: "string \<Rightarrow> string list" where
  "split_spaces [] = [[]]"
| "split_spaces (c # cs) =
     (if c = CHR '' '' then [] # split_spaces cs
      else (case split_spaces cs of [] \<Rightarrow> [[c]] | w # ws \<Rightarrow> (c # w) # ws))"

definition valid_token :: "string \<Rightarrow> bool" where
  \<comment> \<open>\<open>re.match(r"^[a-z0-9]+$", x)\<close>; \<open>$\<close> also matches before one final newline.\<close>
  "valid_token x =
     (let y = (if x \<noteq> [] \<and> last x = CHR 0x0A then butlast x else x)
      in y \<noteq> [] \<and> list_all is_alnum y)"

definition tokenize :: "(string \<Rightarrow> string) \<Rightarrow> string \<Rightarrow> string list" where
  "tokenize stemmer text =
     (let tokens = split_spaces (sub_non_alnum (py_lower text));
          tokens = map (\<lambda>x. if length x > 3 then stemmer x else x) tokens
      in filter valid_token tokens)"

fun lcs_length :: "'a list \<Rightarrow> 'a list \<Rightarrow> nat" where
  "lcs_length [] ys = 0"
| "lcs_length (x # xs) [] = 0"
| "lcs_length (x # xs) (y # ys) =
     (if x = y then Suc (lcs_length xs ys)
      else max (lcs_length xs (y # ys)) (lcs_length (x # xs) ys))"

definition fmeasure :: "rat \<Rightarrow> rat \<Rightarrow> rat" where
  "fmeasure precision recall =
     (if precision + recall > 0 then 2 * precision * recall / (precision + recall) else 0)"

definition score_lcs :: "string list \<Rightarrow> string list \<Rightarrow> rat" where
  "score_lcs target_tokens prediction_tokens =
     (if target_tokens = [] \<or> prediction_tokens = [] then 0
      else
        let lcs = lcs_length target_tokens prediction_tokens;
            precision = of_nat lcs / of_nat (length prediction_tokens);
            recall = of_nat lcs / of_nat (length target_tokens)
        in fmeasure precision recall)"

definition rouge_l_f1 :: "(string \<Rightarrow> string) \<Rightarrow> string \<Rightarrow> string \<Rightarrow> rat" where
  "rouge_l_f1 stemmer target prediction =
     score_lcs (tokenize stemmer target) (tokenize stemmer prediction)"

section \<open>The evaluators (evaluators/core.py)\<close>

text \<open>The dictionary \<open>{"score": ..., "passed": ...}\<close> that every evaluator returns.\<close>

record eval_result =
  score :: rat
  passed :: bool

definition bertscore_evaluator :: "externals \<Rightarrow> string \<Rightarrow> Evaluation \<Rightarrow> error + eval_result" where
  "bertscore_evaluator X response evaluation =
     (if \<not> is_str (expected_answer evaluation)
      then Inl (TypeError ''expected_answer must be a string for BERTScore.'')
      else
        let candidate = py_strip response;
            reference = py_strip (py_str (expected_answer evaluation));
            f1_score = bert_f1 X candidate reference
        in Inr \<lparr>score = f1_score, passed = True\<rparr>)"

definition exact_match_evaluator :: "externals \<Rightarrow> string \<Rightarrow> Evaluation \<Rightarrow> error + eval_result" where
  "exact_match_evaluator X response evaluation =
     (let response_clean = py_strip response;
          expected = py_strip (py_str (expected_answer evaluation));
          variations = (case acceptable_variations evaluation of None \<Rightarrow> [] | Some vs \<Rightarrow> vs);
          passed0 = (response_clean = expected);
          passed1 = (if \<not> passed0 \<and> variations \<noteq> []
                     then list_ex (\<lambda>var. response_clean = py_strip var) variations
                     else passed0);
          rouge_l = rouge_l_f1 (stem X) expected response_clean
      in Inr \<lparr>score = rouge_l, passed = passed1\<rparr>)"

definition regex_match_evaluator :: "externals \<Rightarrow> string \<Rightarrow> Evaluation \<Rightarrow> error + eval_result" where
  "regex_match_evaluator X response evaluation =
     (case regex_pattern evaluation of
        None \<Rightarrow> Inl (ValueError ''Regex pattern not provided for regex_match evaluator.'')
      | Some p \<Rightarrow>
          if p = [] then Inl (ValueError ''Regex pattern not provided for regex_match evaluator.'')
          else
            (case re_search X p response of
               Inl e \<Rightarrow> Inl e
             | Inr is_match \<Rightarrow> Inr \<lparr>score = (if is_match then 1 else 0), passed = is_match\<rparr>))"

text \<open>The dispatch table \<open>eval_functions\<close> of \<open>evaluate_response\<close>, and the lookup in it.\<close>

definition eval_functions ::
  "externals \<Rightarrow> (string \<times> (string \<Rightarrow> Evaluation \<Rightarrow> error + eval_result)) list"
where
  "eval_functions X =
     [(''exact_match'', exact_match_evaluator X),
      (''regex_match'', regex_match_evaluator X),
      (''bert_score'', bertscore_evaluator X)]"

definition evaluate_response :: "externals \<Rightarrow> string \<Rightarrow> Evaluation \<Rightarrow> error + eval_result" where
  "evaluate_response X response evaluation =
     (let eval_type = type evaluation
      in case map_of (eval_functions X) eval_type of
           None \<Rightarrow> Inl (ValueError (''Unknown evaluation type: '' @ eval_type))
         | Some f \<Rightarrow> f response evaluation)"

section \<open>The trial runner (benchmark.py)\<close>

record TestCaseParameters =
  temperature :: rat
  max_tokens :: int
  top_p :: rat

record TestCase =
  system_prompt :: string
  user_prompt :: string
  tc_context :: "string option"
  parameters :: TestCaseParameters

text \<open>\<open>TestDefinition\<close>; its \<open>metadata\<close> field is never read by the runner and is left out.\<close>

record TestDefinition =
  test_id :: string
  version :: string
  test_case :: TestCase
  evaluation :: Evaluation

text \<open>
  The chat-completion call of the OpenAI client is a parameter of the model. A call either
  raises an exception, of which the runner keeps \<open>str(e)\<close>, or returns a completion, of
  which the runner reads the content and the two token counts. \<open>elapsed_ms\<close> is the time
  that the two readings of the clock around the call measure.
\<close>

datatype completion = Raised string | Completed string int int

record api_call =
  outcome :: completion
  elapsed_ms :: rat

type_synonym backend = "string \<Rightarrow> TestCase \<Rightarrow> api_call"

text \<open>The dictionary that \<open>_call_llm\<close> returns.\<close>

record llm_result =
  actual_output :: string
  prompt_tokens :: int
  completion_tokens :: int
  execution_time_ms :: rat
  error :: "string option"

definition call_llm :: "backend \<Rightarrow> TestCase \<Rightarrow> string \<Rightarrow> llm_result" where
  "call_llm client tc model =
     (let call = client model tc
      in case outcome call of
           Completed content pt ct \<Rightarrow>
             \<lparr>actual_output = content, prompt_tokens = pt, completion_tokens = ct,
              execution_time_ms = elapsed_ms call, error = None\<rparr>
         | Raised msg \<Rightarrow>
             \<lparr>actual_output = [], prompt_tokens = 0, completion_tokens = 0,
              execution_time_ms = elapsed_ms call, error = Some msg\<rparr>)"

record TestResult =
  test_id :: string
  passed :: bool
  score :: rat
  actual_output :: string
  expected_output :: pyany
  error_message :: "string option"
  execution_time_ms :: rat
  prompt_tokens :: "int option"
  completion_tokens :: "int option"

text \<open>The truth value of an \<open>Optional[str]\<close>: \<open>None\<close> and the empty string are false.\<close>

fun truthy_str :: "string option \<Rightarrow> bool" where
  "truthy_str None = False"
| "truthy_str (Some s) = (s \<noteq> [])"

text \<open>
  \<open>run_test\<close>. \<open>load\<close> is \<open>_load_test\<close>: reading and validating the JSON file at a path,
  which may raise.
\<close>

definition run_test ::
  "externals \<Rightarrow> backend \<Rightarrow> (string \<Rightarrow> error + TestDefinition) \<Rightarrow> string \<Rightarrow> string
     \<Rightarrow> error + TestResult"
where
  "run_test X client load test_path model =
     (case load test_path of
        Inl e \<Rightarrow> Inl e
      | Inr test_def \<Rightarrow>
          let llm = call_llm client (test_case test_def) model;
              evaluated =
                (if truthy_str (error llm)
                 then Inr \<lparr>eval_result.score = 0, eval_result.passed = False\<rparr>
                 else evaluate_response X (llm_result.actual_output llm) (evaluation test_def))
          in case evaluated of
               Inl e \<Rightarrow> Inl e
             | Inr eval_res \<Rightarrow>
                 Inr \<lparr>test_id = TestDefinition.test_id test_def,
                      passed = eval_result.passed eval_res,
                      score = eval_result.score eval_res,
                      actual_output = llm_result.actual_output llm,
                      expected_output = expected_answer (evaluation test_def),
                      error_message = error llm,
                      execution_time_ms = llm_result.execution_time_ms llm,
                      prompt_tokens = Some (llm_result.prompt_tokens llm),
                      completion_tokens = Some (llm_result.completion_tokens llm)\<rparr>)"

text \<open>
  The loop of \<open>run_all\<close> and \<open>run_category\<close>: \<open>test_files\<close> is the sorted list of the JSON
  files found; an exception of \<open>run_test\<close> leaves the loop and the function.
\<close>

fun run_loop ::
  "externals \<Rightarrow> backend \<Rightarrow> (string \<Rightarrow> error + TestDefinition) \<Rightarrow> string \<Rightarrow> string list
     \<Rightarrow> TestResult list \<Rightarrow> error + TestResult list"
where
  "run_loop X client load model [] results = Inr results"
| "run_loop X client load model (test_file # rest) results =
     (case run_test X client load test_file model of
        Inl e \<Rightarrow> Inl e
      | Inr r \<Rightarrow> run_loop X client load model rest (results @ [r]))"

definition run_all ::
  "externals \<Rightarrow> backend \<Rightarrow> (string \<Rightarrow> error + TestDefinition) \<Rightarrow> string list \<Rightarrow> string
     \<Rightarrow> error + TestResult list"
where
  "run_all X client load test_files model = run_loop X client load model test_files []"

section \<open>The report aggregation (reporters.py)\<close>

text \<open>
  The values that \<open>generate_html_report\<close> reads from a result: \<open>None\<close>, a number or a
  string. A Python \<open>bool\<close> is the number 0 or 1 (it is a subclass of \<open>int\<close>, with the same
  truth value, sum, equality and hash). A result is declared to be a dictionary; what
  \<open>LLMBenchmark.generate_report\<close> passes is a list of \<open>TestResult\<close> objects, which is the
  second constructor.
\<close>

datatype pyval = PNone | PNum rat | PStr string

datatype result_obj = Dict "string \<rightharpoonup> pyval" | Model TestResult

text \<open>
  \<open>r[key]\<close>: a dictionary without the key raises \<open>KeyError\<close>; a pydantic model defines no
  \<open>__getitem__\<close>, so subscripting it raises \<open>TypeError\<close>.
\<close>

fun getitem :: "result_obj \<Rightarrow> string \<Rightarrow> error + pyval" where
  "getitem (Dict d) key = (case d key of None \<Rightarrow> Inl (KeyError key) | Some v \<Rightarrow> Inr v)"
| "getitem (Model t) key = Inl (TypeError ''TestResult object is not subscriptable'')"

fun truthy :: "pyval \<Rightarrow> bool" where
  "truthy PNone = False"
| "truthy (PNum x) = (x \<noteq> 0)"
| "truthy (PStr s) = (s \<noteq> [])"

text \<open>An operand of the addition in \<open>sum\<close>: anything but a number raises \<open>TypeError\<close>.\<close>

fun to_num :: "pyval \<Rightarrow> error + rat" where
  "to_num (PNum x) = Inr x"
| "to_num PNone = Inl (TypeError ''unsupported operand type(s) for +'')"
| "to_num (PStr s) = Inl (TypeError ''unsupported operand type(s) for +'')"

text \<open>\<open>sum(1 for r in results if r["passed"])\<close>\<close>

fun passed_count :: "result_obj list \<Rightarrow> error + int" where
  "passed_count [] = Inr 0"
| "passed_count (r # rs) =
     (case getitem r ''passed'' of
        Inl e \<Rightarrow> Inl e
      | Inr v \<Rightarrow>
          (case passed_count rs of
             Inl e \<Rightarrow> Inl e
           | Inr n \<Rightarrow> Inr ((if truthy v then 1 else 0) + n)))"

text \<open>\<open>sum(r["score"] for r in results if r["score"] is not None)\<close>\<close>

fun score_sum :: "result_obj list \<Rightarrow> error + rat" where
  "score_sum [] = Inr 0"
| "score_sum (r # rs) =
     (case getitem r ''score'' of
        Inl e \<Rightarrow> Inl e
      | Inr v \<Rightarrow>
          if v = PNone then score_sum rs
          else
            (case to_num v of
               Inl e \<Rightarrow> Inl e
             | Inr x \<Rightarrow> (case score_sum rs of Inl e \<Rightarrow> Inl e | Inr s \<Rightarrow> Inr (x + s))))"

text \<open>\<open>sum(r["execution_time_ms"] for r in results)\<close>\<close>

fun time_sum :: "result_obj list \<Rightarrow> error + rat" where
  "time_sum [] = Inr 0"
| "time_sum (r # rs) =
     (case getitem r ''execution_time_ms'' of
        Inl e \<Rightarrow> Inl e
      | Inr v \<Rightarrow>
          (case to_num v of
             Inl e \<Rightarrow> Inl e
           | Inr x \<Rightarrow> (case time_sum rs of Inl e \<Rightarrow> Inl e | Inr s \<Rightarrow> Inr (x + s))))"

text \<open>
  \<open>results_by_category\<close> is a \<open>defaultdict(list)\<close>: an association list in the order in
  which the keys were first inserted. \<open>append_to c r m\<close> is
  \<open>m[c].append(r)\<close>.
\<close>

type_synonym groups = "(pyval \<times> result_obj list) list"

fun append_to :: "pyval \<Rightarrow> result_obj \<Rightarrow> groups \<Rightarrow> groups" where
  "append_to c r [] = [(c, [r])]"
| "append_to c r ((k, l) # m) =
     (if k = c then (k, l @ [r]) # m else (k, l) # append_to c r m)"

fun group_loop :: "result_obj list \<Rightarrow> groups \<Rightarrow> error + groups" where
  "group_loop [] m = Inr m"
| "group_loop (r # rs) m =
     (case getitem r ''category'' of
        Inl e \<Rightarrow> Inl e
      | Inr c \<Rightarrow> group_loop rs (append_to c r m))"

text \<open>The entry of \<open>summary_by_category\<close> for one category.\<close>

record category_summary =
  cat_score :: rat
  tests_run :: int
  cat_passed :: int
  cat_failed :: int

definition summarize_category :: "result_obj list \<Rightarrow> error + category_summary" where
  "summarize_category cat_results =
     (let cat_total = int (length cat_results)
      in case passed_count cat_results of
           Inl e \<Rightarrow> Inl e
         | Inr passed_n \<Rightarrow>
             (case (if cat_total > 0
                    then (case score_sum cat_results of
                            Inl e \<Rightarrow> Inl e
                          | Inr s \<Rightarrow> Inr (s / of_int cat_total))
                    else Inr 0) of
                Inl e \<Rightarrow> Inl e
              | Inr sc \<Rightarrow>
                  Inr \<lparr>cat_score = sc, tests_run = cat_total, cat_passed = passed_n,
                       cat_failed = cat_total - passed_n\<rparr>))"

fun summarize_loop :: "groups \<Rightarrow> error + (pyval \<times> category_summary) list" where
  "summarize_loop [] = Inr []"
| "summarize_loop ((category, cat_results) # m) =
     (case summarize_category cat_results of
        Inl e \<Rightarrow> Inl e
      | Inr cs \<Rightarrow>
          (case summarize_loop m of
             Inl e \<Rightarrow> Inl e
           | Inr rest \<Rightarrow> Inr ((category, cs) # rest)))"

text \<open>
  The overall summary. The source stores \<open>average_score\<close> and the total time formatted with
  two decimals; the record holds the numbers that are formatted.
\<close>

record summary =
  total_tests :: int
  passed_tests :: int
  failed_tests :: int
  average_score :: rat
  total_time_s :: rat

text \<open>
  \<open>generate_html_report\<close> up to the rendering: the result is the pair of \<open>summary\<close> and
  \<open>summary_by_category\<close> that is handed to the template.
\<close>

definition generate_html_report ::
  "result_obj list \<Rightarrow> error + (summary \<times> (pyval \<times> category_summary) list)"
where
  "generate_html_report results =
     (let total = int (length results)
      in case passed_count results of
           Inl e \<Rightarrow> Inl e
         | Inr passed_n \<Rightarrow>
        (case (if total > 0
               then (case score_sum results of
                       Inl e \<Rightarrow> Inl e
                     | Inr s \<Rightarrow> Inr (s / of_int total))
               else Inr 0) of
           Inl e \<Rightarrow> Inl e
         | Inr avg \<Rightarrow>
        (case time_sum results of
           Inl e \<Rightarrow> Inl e
         | Inr t \<Rightarrow>
        (case group_loop results [] of
           Inl e \<Rightarrow> Inl e
         | Inr results_by_category \<Rightarrow>
        (case summarize_loop results_by_category of
           Inl e \<Rightarrow> Inl e
         | Inr summary_by_category \<Rightarrow>
             Inr (\<lparr>total_tests = total, passed_tests = passed_n,
                   failed_tests = total - passed_n, average_score = avg,
                   total_time_s = t / 1000\<rparr>,
                  summary_by_category))))))"

text \<open>\<open>LLMBenchmark.generate_report\<close> hands its list of \<open>TestResult\<close> objects over.\<close>

definition generate_report ::
  "TestResult list \<Rightarrow> error + (summary \<times> (pyval \<times> category_summary) list)"
where
  "generate_report results = generate_html_report (map Model results)"

section \<open>The report with floating-point sums\<close>

text \<open>
  IEEE 754 binary64 arithmetic on the rationals that are doubles: the exact result is
  rounded to the nearest double, ties to the even mantissa. \<open>floor_log2 x\<close> is the exponent
  of a positive \<open>x\<close>; the unit of the result is \<open>2 ^ (e - 52)\<close>, and \<open>2 ^ - 1074\<close> for the
  subnormal numbers. Results beyond the largest double, which IEEE arithmetic turns into
  infinity, are left out.
\<close>

definition pow2 :: "int \<Rightarrow> rat" where
  "pow2 k = (if 0 \<le> k then of_int (2 ^ nat k) else 1 / of_int (2 ^ nat (- k)))"

function ilog2 :: "int \<Rightarrow> int" where
  "ilog2 n = (if n < 2 then 0 else 1 + ilog2 (n div 2))"
  by pat_completeness auto
termination
  by (relation "measure nat") auto

definition floor_log2 :: "rat \<Rightarrow> int" where
  "floor_log2 x =
     (if 1 \<le> x then ilog2 \<lfloor>x\<rfloor>
      else let n = ilog2 \<lfloor>1 / x\<rfloor>
           in if x = pow2 (- n) then - n else - n - 1)"

definition round_half_even :: "rat \<Rightarrow> int" where
  "round_half_even m =
     (let f = \<lfloor>m\<rfloor>; d = m - of_int f
      in if d < 1 / 2 then f else if 1 / 2 < d then f + 1 else if even f then f else f + 1)"

definition round_double :: "rat \<Rightarrow> rat" where
  "round_double x =
     (if x = 0 then 0
      else let e = floor_log2 \<bar>x\<bar>;
               q = max (e - 52) (- 1074)
           in of_int (round_half_even (x / pow2 q)) * pow2 q)"

definition fl_add :: "rat \<Rightarrow> rat \<Rightarrow> rat" where
  "fl_add x y = round_double (x + y)"















section \<open>Auxiliary definitions for the statements\<close>

text \<open>
  What the report reads from one result, as total functions: the contribution of a result
  to the count of passed tests, to the sum of the scores (a score that is \<open>None\<close> contributes
  nothing) and to the total time, its category, and the conditions under which the four
  subscriptions of \<open>generate_html_report\<close> succeed on it.
\<close>

definition passed_flag :: "result_obj \<Rightarrow> int" where
  "passed_flag r = (case getitem r ''passed'' of Inl e \<Rightarrow> 0 | Inr v \<Rightarrow> if truthy v then 1 else 0)"

definition score_value :: "result_obj \<Rightarrow> rat" where
  "score_value r = (case getitem r ''score'' of Inr (PNum x) \<Rightarrow> x | _ \<Rightarrow> 0)"

definition time_value :: "result_obj \<Rightarrow> rat" where
  "time_value r = (case getitem r ''execution_time_ms'' of Inr (PNum x) \<Rightarrow> x | _ \<Rightarrow> 0)"

definition cat_of :: "result_obj \<Rightarrow> pyval option" where
  "cat_of r = (case getitem r ''category'' of Inl e \<Rightarrow> None | Inr c \<Rightarrow> Some c)"

definition has_passed :: "result_obj \<Rightarrow> bool" where
  "has_passed r = (case getitem r ''passed'' of Inl e \<Rightarrow> False | Inr v \<Rightarrow> True)"

definition score_ok :: "result_obj \<Rightarrow> bool" where
  "score_ok r = (case getitem r ''score'' of Inr PNone \<Rightarrow> True | Inr (PNum x) \<Rightarrow> True | _ \<Rightarrow> False)"

definition time_ok :: "result_obj \<Rightarrow> bool" where
  "time_ok r = (case getitem r ''execution_time_ms'' of Inr (PNum x) \<Rightarrow> True | _ \<Rightarrow> False)"

definition has_cat :: "result_obj \<Rightarrow> bool" where
  "has_cat r = (case getitem r ''category'' of Inl e \<Rightarrow> False | Inr c \<Rightarrow> True)"

definition row_ok :: "result_obj \<Rightarrow> bool" where
  "row_ok r = (has_passed r \<and> score_ok r \<and> time_ok r \<and> has_cat r)"

text \<open>
  The results of one category, and the two summaries written as functions of the list
  of results they are computed from.
\<close>

definition rows_of :: "pyval \<Rightarrow> result_obj list \<Rightarrow> result_obj list" where
  "rows_of c rs = filter (\<lambda>r. cat_of r = Some c) rs"

definition category_summary_of :: "result_obj list \<Rightarrow> category_summary" where
  "category_summary_of rows =
     \<lparr>cat_score = (if rows = [] then 0 else sum_list (map score_value rows) / of_int (int (length rows))),
      tests_run = int (length rows),
      cat_passed = sum_list (map passed_flag rows),
      cat_failed = int (length rows) - sum_list (map passed_flag rows)\<rparr>"

definition overall_summary :: "result_obj list \<Rightarrow> summary" where
  "overall_summary rs =
     \<lparr>total_tests = int (length rs),
      passed_tests = sum_list (map passed_flag rs),
      failed_tests = int (length rs) - sum_list (map passed_flag rs),
      average_score = (if rs = [] then 0 else sum_list (map score_value rs) / of_int (int (length rs))),
      total_time_s = sum_list (map time_value rs) / 1000\<rparr>"







text \<open>
  The field names that the model class \<open>TestResult\<close> declares.
\<close>

definition TestResult_fields :: "string list" where
  "TestResult_fields =
     [''test_id'', ''passed'', ''score'', ''actual_output'', ''expected_output'',
      ''error_message'', ''execution_time_ms'', ''prompt_tokens'', ''completion_tokens'']"

section \<open>Concrete inputs\<close>

text \<open>
  Stand-ins for the external libraries, on which concrete examples can be evaluated: a
  search for a literal pattern, a stemmer that leaves every word as it is, and a similarity
  that is 1 on equal strings and 0 otherwise.
\<close>

fun contains :: "string \<Rightarrow> string \<Rightarrow> bool" where
  "contains p [] = (p = [])"
| "contains p (c # cs) = (take (length p) (c # cs) = p \<or> contains p cs)"

definition example_externals :: externals where
  "example_externals =
     \<lparr>re_search = (\<lambda>p s. Inr (contains p s)),
      stem = (\<lambda>w. w),
      bert_f1 = (\<lambda>c r. if c = r then 1 else 0)\<rparr>"

text \<open>
  A backend that gives the same reply to every call, test definitions around the question of
  the specification's scenario, and a loader that knows three files.
\<close>

definition example_backend :: "completion \<Rightarrow> backend" where
  "example_backend reply = (\<lambda>model tc. \<lparr>outcome = reply, elapsed_ms = 250\<rparr>)"

definition example_case :: TestCase where
  "example_case =
     \<lparr>system_prompt = ''You are a helpful assistant.'',
      user_prompt = ''What is the capital of France?'',
      tc_context = None,
      parameters = \<lparr>temperature = 0, max_tokens = 512, top_p = 1\<rparr>\<rparr>"

definition example_test :: "string \<Rightarrow> Evaluation \<Rightarrow> TestDefinition" where
  "example_test tid ev =
     \<lparr>TestDefinition.test_id = tid, version = ''1.0'', test_case = example_case, evaluation = ev\<rparr>"

definition paris_exact :: Evaluation where
  "paris_exact =
     \<lparr>type = ''exact_match'', expected_answer = Str ''Paris'',
      acceptable_variations = Some [''paris'', ''PARIS''], regex_pattern = None\<rparr>"

definition paris_bert :: Evaluation where
  "paris_bert =
     \<lparr>type = ''bert_score'', expected_answer = Str ''Paris'',
      acceptable_variations = None, regex_pattern = None\<rparr>"

definition paris_fuzzy :: Evaluation where
  "paris_fuzzy =
     \<lparr>type = ''fuzzy_match'', expected_answer = Str ''Paris'',
      acceptable_variations = None, regex_pattern = None\<rparr>"

definition phone_regex :: Evaluation where
  "phone_regex =
     \<lparr>type = ''regex_match'', expected_answer = py_None,
      acceptable_variations = None, regex_pattern = Some ''555-1234''\<rparr>"

definition example_load :: "string \<Rightarrow> error + TestDefinition" where
  "example_load path =
     (if path = ''a.json'' then Inr (example_test ''a'' paris_fuzzy)
      else if path = ''b.json'' then Inr (example_test ''b'' paris_exact)
      else if path = ''c.json'' then Inr (example_test ''c'' paris_bert)
      else Inl (OtherError ''FileNotFoundError''))"

definition example_result :: TestResult where
  "example_result =
     \<lparr>test_id = ''b'', passed = True, score = 1, actual_output = ''Paris'',
      expected_output = Str ''Paris'', error_message = None, execution_time_ms = 250,
      prompt_tokens = Some 12, completion_tokens = Some 1\<rparr>"

text \<open>
  Result dictionaries with the four keys that the report reads, and the scenario of the
  specification: three results in the categories math, math and lang.
\<close>

definition result_row :: "rat \<Rightarrow> pyval \<Rightarrow> string \<Rightarrow> result_obj" where
  "result_row p sc cat =
     Dict [''passed'' \<mapsto> PNum p, ''score'' \<mapsto> sc,
           ''execution_time_ms'' \<mapsto> PNum 10, ''category'' \<mapsto> PStr cat]"

definition scenario :: "result_obj list" where
  "scenario =
     [result_row 1 (PNum 1) ''math'', result_row 0 (PNum 0) ''math'',
      result_row 1 (PNum (4 / 5)) ''lang'']"

definition scenario_summary :: summary where
  "scenario_summary =
     \<lparr>total_tests = 3, passed_tests = 2, failed_tests = 1, average_score = 3 / 5,
      total_time_s = 3 / 100\<rparr>"

definition scenario_categories :: "(pyval \<times> category_summary) list" where
  "scenario_categories =
     [(PStr ''math'', \<lparr>cat_score = 1 / 2, tests_run = 2, cat_passed = 1, cat_failed = 1\<rparr>),
      (PStr ''lang'', \<lparr>cat_score = 4 / 5, tests_run = 1, cat_passed = 1, cat_failed = 0\<rparr>)]"






section \<open>The dispatcher and the scoring strategies\<close>

lemma map_of_eval_functions:
  "map_of (eval_functions X) t =
     (if t = ''exact_match'' then Some (exact_match_evaluator X)
      else if t = ''regex_match'' then Some (regex_match_evaluator X)
      else if t = ''bert_score'' then Some (bertscore_evaluator X)
      else None)"
  by (simp add: eval_functions_def)

lemma evaluate_response_unknown:
  "t \<notin> {''exact_match'', ''regex_match'', ''bert_score''} \<Longrightarrow> type ev = t \<Longrightarrow>
   evaluate_response X response ev = Inl (ValueError (''Unknown evaluation type: '' @ t))"
  by (simp add: evaluate_response_def Let_def map_of_eval_functions)

lemma tokenize_empty: "tokenize st [] = []"
  by (simp add: tokenize_def py_lower_def valid_token_def)

lemma rouge_empty_prediction: "rouge_l_f1 st target [] = 0"
  by (simp add: rouge_l_f1_def score_lcs_def tokenize_empty)

text \<open>
  Claim C3. The dispatch table has exactly three keys. The specification calls the third
  kind \<open>semantic_similarity\<close>; in the source its tag is the string \<open>bert_score\<close>. For a
  specification with one of the three kinds, \<open>evaluate_response\<close> returns what the matching
  evaluator returns, unchanged; for every other kind it raises
  \<open>ValueError("Unknown evaluation type: ...")\<close>.
\<close>

theorem evaluate_response_dispatch:
  "fst ` set (eval_functions X) = {''exact_match'', ''regex_match'', ''bert_score''} \<and>
   (type ev = ''exact_match'' \<longrightarrow>
      evaluate_response X response ev = exact_match_evaluator X response ev) \<and>
   (type ev = ''regex_match'' \<longrightarrow>
      evaluate_response X response ev = regex_match_evaluator X response ev) \<and>
   (type ev = ''bert_score'' \<longrightarrow>
      evaluate_response X response ev = bertscore_evaluator X response ev) \<and>
   (type ev \<notin> {''exact_match'', ''regex_match'', ''bert_score''} \<longrightarrow>
      evaluate_response X response ev =
        Inl (ValueError (''Unknown evaluation type: '' @ type ev)))"
proof -
  have keys: "fst ` set (eval_functions X) = {''exact_match'', ''regex_match'', ''bert_score''}"
    by (simp add: eval_functions_def)
  show ?thesis
    unfolding evaluate_response_def Let_def map_of_eval_functions
    using keys by simp
qed

theorem evaluate_response_dispatch_witness:
  "evaluate_response example_externals ''Paris'' paris_exact =
     exact_match_evaluator example_externals ''Paris'' paris_exact \<and>
   evaluate_response example_externals ''Paris'' phone_regex =
     regex_match_evaluator example_externals ''Paris'' phone_regex \<and>
   evaluate_response example_externals ''Paris'' paris_bert =
     bertscore_evaluator example_externals ''Paris'' paris_bert \<and>
   evaluate_response example_externals ''Paris'' paris_fuzzy =
     Inl (ValueError ''Unknown evaluation type: fuzzy_match'')"
  using evaluate_response_dispatch[of example_externals paris_exact "''Paris''"]
    evaluate_response_dispatch[of example_externals phone_regex "''Paris''"]
    evaluate_response_dispatch[of example_externals paris_bert "''Paris''"]
    evaluate_response_dispatch[of example_externals paris_fuzzy "''Paris''"]
  by (simp add: paris_exact_def phone_regex_def paris_bert_def paris_fuzzy_def)

text \<open>
  Claim C8. For a specification with a non-empty pattern on which the search returns,
  \<open>passed\<close> is the result of searching the pattern in the response as it was given, not
  stripped, and \<open>score\<close> is 1 when it matched and 0 otherwise.
\<close>

theorem regex_match_search:
  assumes "regex_pattern ev = Some p" and "p \<noteq> []" and "re_search X p response = Inr m"
  shows "regex_match_evaluator X response ev =
           Inr \<lparr>eval_result.score = (if m then 1 else 0), eval_result.passed = m\<rparr> \<and>
         (if m then 1 else 0) \<in> {0, 1 :: rat}"
  using assms by (simp add: regex_match_evaluator_def)

theorem regex_match_search_witness:
  "regex_match_evaluator example_externals ''call 555-1234 now'' phone_regex =
     Inr \<lparr>eval_result.score = 1, eval_result.passed = True\<rparr> \<and>
   regex_match_evaluator example_externals '' 555-123 '' phone_regex =
     Inr \<lparr>eval_result.score = 0, eval_result.passed = False\<rparr>"
proof -
  have p: "regex_pattern phone_regex = Some ''555-1234''" "''555-1234'' \<noteq> []"
    by (simp_all add: phone_regex_def)
  have a: "re_search example_externals ''555-1234'' ''call 555-1234 now'' = Inr True"
    by (simp add: example_externals_def)
  have b: "re_search example_externals ''555-1234'' '' 555-123 '' = Inr False"
    by (simp add: example_externals_def)
  from regex_match_search[OF p a] regex_match_search[OF p b] show ?thesis by simp
qed

text \<open>
  An empty response against the reference \<open>Paris\<close> passes when the empty string is listed
  as an acceptable variation.
\<close>

theorem exact_match_empty_candidate_counterexample:
  "exact_match_evaluator example_externals []
     \<lparr>type = ''exact_match'', expected_answer = Str ''Paris'',
      acceptable_variations = Some [[]], regex_pattern = None\<rparr> =
   Inr \<lparr>eval_result.score = 0, eval_result.passed = True\<rparr>"
  by (simp add: exact_match_evaluator_def py_strip_def is_space_def rouge_empty_prediction)

text \<open>
  Claim C7, as amended. The exact-match evaluator always returns a result; \<open>passed\<close> holds
  if and only if the stripped response equals the stripped reference or some stripped
  acceptable variation; \<open>score\<close> is the ROUGE-L F-measure, with stemming, of the stripped
  reference and the stripped response. For a response that is empty after stripping the
  score is 0, and \<open>passed\<close> holds if and only if the reference or some acceptable variation is
  empty after stripping.
\<close>

theorem exact_match_evaluator_spec:
  "\<exists>res. exact_match_evaluator X response ev = Inr res \<and>
     (eval_result.passed res \<longleftrightarrow>
        py_strip response = py_strip (py_str (expected_answer ev)) \<or>
        (\<exists>var \<in> set (case acceptable_variations ev of None \<Rightarrow> [] | Some vs \<Rightarrow> vs).
            py_strip response = py_strip var)) \<and>
     eval_result.score res = rouge_l_f1 (stem X) (py_strip (py_str (expected_answer ev))) (py_strip response) \<and>
     (py_strip response = [] \<longrightarrow>
        eval_result.score res = 0 \<and>
        (eval_result.passed res \<longleftrightarrow>
           py_strip (py_str (expected_answer ev)) = [] \<or>
           (\<exists>var \<in> set (case acceptable_variations ev of None \<Rightarrow> [] | Some vs \<Rightarrow> vs).
               py_strip var = [])))"
proof -
  let ?res = "\<lparr>eval_result.score = rouge_l_f1 (stem X) (py_strip (py_str (expected_answer ev))) (py_strip response),
               eval_result.passed = (py_strip response = py_strip (py_str (expected_answer ev)) \<or>
                  (\<exists>var \<in> set (case acceptable_variations ev of None \<Rightarrow> [] | Some vs \<Rightarrow> vs).
                      py_strip response = py_strip var))\<rparr>"
  have eq: "exact_match_evaluator X response ev = Inr ?res"
    by (auto simp: exact_match_evaluator_def Let_def list_ex_iff split: option.splits)
  have edge: "py_strip response = [] \<longrightarrow>
        eval_result.score ?res = 0 \<and>
        (eval_result.passed ?res \<longleftrightarrow>
           py_strip (py_str (expected_answer ev)) = [] \<or>
           (\<exists>var \<in> set (case acceptable_variations ev of None \<Rightarrow> [] | Some vs \<Rightarrow> vs).
               py_strip var = []))"
    by (auto simp: rouge_empty_prediction)
  from eq edge show ?thesis
    by (intro exI[of _ ?res]) simp
qed

theorem exact_match_evaluator_spec_witness:
  "\<exists>res. exact_match_evaluator example_externals ''  '' paris_exact = Inr res \<and>
     \<not> eval_result.passed res \<and> eval_result.score res = 0"
proof -
  have s: "py_strip ''  '' = []" "py_strip ''Paris'' = ''Paris''"
    "py_strip ''paris'' = ''paris''" "py_strip ''PARIS'' = ''PARIS''"
    by (simp_all add: py_strip_def is_space_def)
  from exact_match_evaluator_spec[of example_externals "''  ''" paris_exact]
  show ?thesis by (auto simp: paris_exact_def s)
qed

text \<open>
  The constructor accepts an unknown kind, a \<open>regex_match\<close> without pattern and a
  \<open>bert_score\<close> whose reference is the integer 42.
\<close>

theorem Evaluation_init_counterexample:
  "Evaluation_init (Some ''fuzzy_match'') (Some (Str ''Paris'')) None None = Inr paris_fuzzy \<and>
   Evaluation_init (Some ''regex_match'') None None None =
     Inr \<lparr>type = ''regex_match'', expected_answer = py_None, acceptable_variations = None,
          regex_pattern = None\<rparr> \<and>
   Evaluation_init (Some ''bert_score'') (Some (NonStr ''42'')) None None =
     Inr \<lparr>type = ''bert_score'', expected_answer = NonStr ''42'', acceptable_variations = None,
          regex_pattern = None\<rparr>"
  by (simp add: Evaluation_init_def paris_fuzzy_def)

text \<open>
  Claim C2, as amended. Constructing an \<open>Evaluation\<close> with any kind succeeds, whatever the
  other fields are. The three violations are detected when the response is scored:
  \<open>evaluate_response\<close> raises \<open>ValueError\<close> for a kind outside the table and for a
  \<open>regex_match\<close> whose pattern is missing or empty, and \<open>TypeError\<close> for a \<open>bert_score\<close>
  whose reference is not a string.
\<close>

theorem Evaluation_init_defers_validation:
  "\<exists>ev. Evaluation_init (Some t) ea av rp = Inr ev \<and>
     (t \<notin> {''exact_match'', ''regex_match'', ''bert_score''} \<longrightarrow>
        evaluate_response X response ev =
          Inl (ValueError (''Unknown evaluation type: '' @ t))) \<and>
     (t = ''regex_match'' \<and> (rp = None \<or> rp = Some []) \<longrightarrow>
        evaluate_response X response ev =
          Inl (ValueError ''Regex pattern not provided for regex_match evaluator.'')) \<and>
     (t = ''bert_score'' \<and> (\<forall>s. ea \<noteq> Some (Str s)) \<longrightarrow>
        evaluate_response X response ev =
          Inl (TypeError ''expected_answer must be a string for BERTScore.''))"
proof -
  let ?ev = "\<lparr>type = t, expected_answer = (case ea of None \<Rightarrow> py_None | Some v \<Rightarrow> v),
              acceptable_variations = av, regex_pattern = rp\<rparr>"
  have c: "Evaluation_init (Some t) ea av rp = Inr ?ev" by (simp add: Evaluation_init_def)
  have u: "t \<notin> {''exact_match'', ''regex_match'', ''bert_score''} \<longrightarrow>
        evaluate_response X response ?ev =
          Inl (ValueError (''Unknown evaluation type: '' @ t))"
    using evaluate_response_unknown[of t ?ev X response] by simp
  have r: "t = ''regex_match'' \<and> (rp = None \<or> rp = Some []) \<longrightarrow>
        evaluate_response X response ?ev =
          Inl (ValueError ''Regex pattern not provided for regex_match evaluator.'')"
    by (auto simp: evaluate_response_def Let_def map_of_eval_functions regex_match_evaluator_def)
  have b: "t = ''bert_score'' \<and> (\<forall>s. ea \<noteq> Some (Str s)) \<longrightarrow>
        evaluate_response X response ?ev =
          Inl (TypeError ''expected_answer must be a string for BERTScore.'')"
  proof (intro impI, elim conjE)
    assume t: "t = ''bert_score''" and ns: "\<forall>s. ea \<noteq> Some (Str s)"
    have "\<not> is_str (case ea of None \<Rightarrow> py_None | Some v \<Rightarrow> v)"
    proof (cases ea)
      case None
      then show ?thesis by (simp add: py_None_def)
    next
      case (Some v)
      with ns show ?thesis by (cases v) auto
    qed
    then show "evaluate_response X response ?ev =
          Inl (TypeError ''expected_answer must be a string for BERTScore.'')"
      by (simp add: t evaluate_response_def Let_def map_of_eval_functions bertscore_evaluator_def)
  qed
  from c u r b show ?thesis by (intro exI[of _ ?ev]) blast
qed

theorem Evaluation_init_defers_validation_witness:
  "(\<exists>ev. Evaluation_init (Some ''fuzzy_match'') None None None = Inr ev \<and>
      evaluate_response example_externals ''Paris'' ev =
        Inl (ValueError ''Unknown evaluation type: fuzzy_match'')) \<and>
   (\<exists>ev. Evaluation_init (Some ''regex_match'') None None None = Inr ev \<and>
      evaluate_response example_externals ''Paris'' ev =
        Inl (ValueError ''Regex pattern not provided for regex_match evaluator.'')) \<and>
   (\<exists>ev. Evaluation_init (Some ''bert_score'') (Some (NonStr ''42'')) None None = Inr ev \<and>
      evaluate_response example_externals ''Paris'' ev =
        Inl (TypeError ''expected_answer must be a string for BERTScore.''))"
  using Evaluation_init_defers_validation[of "''fuzzy_match''" None None None example_externals "''Paris''"]
    Evaluation_init_defers_validation[of "''regex_match''" None None None example_externals "''Paris''"]
    Evaluation_init_defers_validation[of "''bert_score''" "Some (NonStr ''42'')" None None
      example_externals "''Paris''"]
  by simp

section \<open>The trial runner\<close>

lemma call_llm_example:
  "call_llm (example_backend (Completed ''Paris'' 12 1)) tc m =
     \<lparr>llm_result.actual_output = ''Paris'', llm_result.prompt_tokens = 12,
      llm_result.completion_tokens = 1, llm_result.execution_time_ms = 250, error = None\<rparr>"
  by (simp add: call_llm_def example_backend_def)

text \<open>
  When the backend raises with a non-empty message, \<open>run_test\<close> does not call the
  dispatcher: the result is the same for every evaluation specification and for every
  behaviour of the external libraries.
\<close>

lemma run_test_short_circuit:
  assumes "load f = Inr td"
    and "outcome (client model (test_case td)) = Raised msg"
    and "msg \<noteq> []"
  shows "run_test X client load f model =
           Inr \<lparr>test_id = TestDefinition.test_id td, passed = False, score = 0,
                actual_output = [], expected_output = expected_answer (evaluation td),
                error_message = Some msg,
                execution_time_ms = elapsed_ms (client model (test_case td)),
                prompt_tokens = Some 0, completion_tokens = Some 0\<rparr>"
  using assms by (simp add: run_test_def call_llm_def Let_def)

text \<open>
  Claim C6. The test of \<open>run_test\<close> is the truth value of the message, and the empty
  string is false: when the backend raises an exception whose message is empty, the
  dispatcher is called on the empty output. With a \<open>bert_score\<close> specification the failed
  generation is then reported as passed, with an empty \<open>error_message\<close>.
\<close>

theorem run_test_empty_message:
  "run_test example_externals (example_backend (Raised [])) example_load ''c.json'' ''gpt-4'' =
     Inr \<lparr>test_id = ''c'', passed = True, score = 0, actual_output = [],
          expected_output = Str ''Paris'', error_message = Some [],
          execution_time_ms = 250, prompt_tokens = Some 0, completion_tokens = Some 0\<rparr>"
  by (simp add: run_test_def call_llm_def example_backend_def example_load_def example_test_def
        paris_bert_def evaluate_response_def eval_functions_def bertscore_evaluator_def
        example_externals_def py_strip_def is_space_def)

lemma run_loop_prefix:
  "\<forall>g \<in> set pre. \<exists>r. run_test X client load g model = Inr r \<Longrightarrow>
   \<exists>rs. run_loop X client load model (pre @ rest) results =
         run_loop X client load model rest (results @ rs)"
proof (induction pre arbitrary: results)
  case Nil
  show ?case by (rule exI[of _ "[]"]) simp
next
  case (Cons g pre)
  then obtain r where r: "run_test X client load g model = Inr r" by auto
  from Cons.prems have "\<forall>g \<in> set pre. \<exists>r. run_test X client load g model = Inr r" by simp
  from Cons.IH[OF this, of "results @ [r]"] obtain rs where
    "run_loop X client load model (pre @ rest) (results @ [r]) =
       run_loop X client load model rest ((results @ [r]) @ rs)" by blast
  then show ?case using r by (intro exI[of _ "r # rs"]) simp
qed

text \<open>
  A batch of two files, the first with an unknown kind: \<open>run_all\<close> raises and returns no
  result, although the second file is well formed.
\<close>

theorem run_all_counterexample:
  "run_all example_externals (example_backend (Completed ''Paris'' 12 1)) example_load
     [''a.json'', ''b.json''] ''gpt-4'' =
   Inl (ValueError ''Unknown evaluation type: fuzzy_match'')"
  by (simp add: run_all_def run_test_def example_load_def example_test_def paris_fuzzy_def
        call_llm_example evaluate_response_def eval_functions_def)

text \<open>
  Claim C1, as amended. Nothing catches an error of the dispatch. When the generation of a
  trial succeeded and \<open>evaluate_response\<close> raises on its output, \<open>run_test\<close> raises that error
  instead of returning a result, and \<open>run_all\<close>, after the files before it have been run,
  raises the same error: the batch returns no results and the files after it are not run.
\<close>

theorem structural_error_aborts_batch:
  assumes files: "test_files = pre @ f # post"
    and pre: "\<forall>g \<in> set pre. \<exists>r. run_test X client load g model = Inr r"
    and load: "load f = Inr td"
    and gen: "\<not> truthy_str (error (call_llm client (test_case td) model))"
    and ev: "evaluate_response X (llm_result.actual_output (call_llm client (test_case td) model))
               (evaluation td) = Inl e"
  shows "run_test X client load f model = Inl e \<and>
         run_all X client load test_files model = Inl e"
proof -
  have rt: "run_test X client load f model = Inl e"
    using load gen ev by (simp add: run_test_def Let_def)
  from run_loop_prefix[OF pre, of "f # post" "[]"] obtain rs where
    "run_loop X client load model (pre @ f # post) [] =
       run_loop X client load model (f # post) ([] @ rs)" by blast
  with rt have "run_all X client load test_files model = Inl e"
    by (simp add: run_all_def files)
  with rt show ?thesis by simp
qed

theorem structural_error_aborts_batch_witness:
  "run_test example_externals (example_backend (Completed ''Paris'' 12 1)) example_load
     ''a.json'' ''gpt-4'' = Inl (ValueError ''Unknown evaluation type: fuzzy_match'') \<and>
   run_all example_externals (example_backend (Completed ''Paris'' 12 1)) example_load
     [''b.json'', ''a.json'', ''c.json''] ''gpt-4'' =
   Inl (ValueError ''Unknown evaluation type: fuzzy_match'')"
proof (rule structural_error_aborts_batch[where pre = "[''b.json'']" and post = "[''c.json'']"
        and td = "example_test ''a'' paris_fuzzy"])
  show "[''b.json'', ''a.json'', ''c.json''] = [''b.json''] @ ''a.json'' # [''c.json'']" by simp
  show "\<forall>g \<in> set [''b.json'']. \<exists>r. run_test example_externals
          (example_backend (Completed ''Paris'' 12 1)) example_load g ''gpt-4'' = Inr r"
    by (simp add: run_test_def example_load_def example_test_def paris_exact_def
          call_llm_example evaluate_response_def eval_functions_def exact_match_evaluator_def
          Let_def)
  show "example_load ''a.json'' = Inr (example_test ''a'' paris_fuzzy)"
    by (simp add: example_load_def)
  show "\<not> truthy_str (error (call_llm (example_backend (Completed ''Paris'' 12 1))
          (test_case (example_test ''a'' paris_fuzzy)) ''gpt-4''))"
    by (simp add: call_llm_example)
  show "evaluate_response example_externals
          (llm_result.actual_output (call_llm (example_backend (Completed ''Paris'' 12 1))
             (test_case (example_test ''a'' paris_fuzzy)) ''gpt-4''))
          (evaluation (example_test ''a'' paris_fuzzy)) =
        Inl (ValueError ''Unknown evaluation type: fuzzy_match'')"
    by (simp add: call_llm_example example_test_def paris_fuzzy_def evaluate_response_def
          eval_functions_def)
qed

section \<open>The aggregation\<close>

text \<open>
  Each sum succeeds exactly when every result has what the sum reads, and is then the sum of
  the contributions.
\<close>

lemma passed_count_ok:
  "list_all has_passed rs \<Longrightarrow> passed_count rs = Inr (sum_list (map passed_flag rs))"
  by (induction rs) (auto simp: has_passed_def passed_flag_def split: sum.splits)

lemma passed_count_Inr: "passed_count rs = Inr n \<Longrightarrow> list_all has_passed rs"
  by (induction rs arbitrary: n) (auto simp: has_passed_def split: sum.splits)

lemma score_sum_ok:
  "list_all score_ok rs \<Longrightarrow> score_sum rs = Inr (sum_list (map score_value rs))"
  by (induction rs) (auto simp: score_ok_def score_value_def split: sum.splits pyval.splits)

lemma score_sum_Inr: "score_sum rs = Inr n \<Longrightarrow> list_all score_ok rs"
  by (induction rs arbitrary: n) (auto simp: score_ok_def split: sum.splits pyval.splits if_splits)

lemma time_sum_ok:
  "list_all time_ok rs \<Longrightarrow> time_sum rs = Inr (sum_list (map time_value rs))"
  by (induction rs) (auto simp: time_ok_def time_value_def split: sum.splits pyval.splits)

lemma time_sum_Inr: "time_sum rs = Inr n \<Longrightarrow> list_all time_ok rs"
  by (induction rs arbitrary: n) (auto simp: time_ok_def split: sum.splits pyval.splits if_splits)

text \<open>
  Grouping: the keys stay distinct, and the entry of a category is the list of the results
  of that category, in their order.
\<close>

lemma map_of_append_to:
  "map_of (append_to c r m) =
     (map_of m)(c \<mapsto> (case map_of m c of None \<Rightarrow> [] | Some l \<Rightarrow> l) @ [r])"
  by (induction c r m rule: append_to.induct) (auto simp: fun_eq_iff)

lemma fst_set_append_to: "fst ` set (append_to c r m) = insert c (fst ` set m)"
  by (induction c r m rule: append_to.induct) auto

lemma distinct_append_to:
  "distinct (map fst m) \<Longrightarrow> distinct (map fst (append_to c r m))"
  by (induction c r m rule: append_to.induct) (auto simp: fst_set_append_to)

lemma group_loop_Inr: "group_loop rs m = Inr g \<Longrightarrow> list_all has_cat rs"
  by (induction rs arbitrary: m) (auto simp: has_cat_def split: sum.splits)

lemma group_loop_ok:
  "list_all has_cat rs \<Longrightarrow> distinct (map fst m) \<Longrightarrow>
   \<exists>g. group_loop rs m = Inr g \<and> distinct (map fst g) \<and>
       (\<forall>c. map_of g c =
          (case map_of m c of
             None \<Rightarrow> (if rows_of c rs = [] then None else Some (rows_of c rs))
           | Some l \<Rightarrow> Some (l @ rows_of c rs)))"
proof (induction rs arbitrary: m)
  case Nil
  then show ?case by (auto simp: rows_of_def split: option.splits)
next
  case (Cons r rs)
  from Cons.prems obtain c0 where c0: "getitem r ''category'' = Inr c0" "cat_of r = Some c0"
    by (auto simp: cat_of_def has_cat_def split: sum.splits)
  let ?m = "append_to c0 r m"
  have d: "distinct (map fst ?m)" using Cons.prems by (simp add: distinct_append_to)
  from Cons.prems have "list_all has_cat rs" by simp
  from Cons.IH[OF this d] obtain g where g: "group_loop rs ?m = Inr g" "distinct (map fst g)"
    "\<And>c. map_of g c =
          (case map_of ?m c of
             None \<Rightarrow> (if rows_of c rs = [] then None else Some (rows_of c rs))
           | Some l \<Rightarrow> Some (l @ rows_of c rs))"
    by blast
  have "map_of g c =
          (case map_of m c of
             None \<Rightarrow> (if rows_of c (r # rs) = [] then None else Some (rows_of c (r # rs)))
           | Some l \<Rightarrow> Some (l @ rows_of c (r # rs)))" for c
    unfolding g(3) map_of_append_to using c0
    by (auto simp: rows_of_def split: option.splits)
  with g c0 show ?case by auto
qed

lemma summarize_category_ok:
  "list_all has_passed rows \<Longrightarrow> list_all score_ok rows \<Longrightarrow>
   summarize_category rows = Inr (category_summary_of rows)"
  unfolding summarize_category_def category_summary_of_def Let_def
  by (simp add: passed_count_ok score_sum_ok)

lemma summarize_loop_ok:
  "\<forall>(c, rows) \<in> set g. list_all has_passed rows \<and> list_all score_ok rows \<Longrightarrow>
   summarize_loop g = Inr (map (\<lambda>(c, rows). (c, category_summary_of rows)) g)"
  by (induction g) (auto simp: summarize_category_ok)

text \<open>
  The report is produced exactly for the lists of well-formed results, and its two
  summaries are then the functions above.
\<close>

lemma generate_html_report_Inr:
  assumes "generate_html_report rs = Inr out"
  shows "list_all row_ok rs"
proof (cases rs)
  case Nil
  then show ?thesis by simp
next
  case (Cons r rs')
  then have pos: "int (length rs) > 0" by simp
  from assms obtain n where n: "passed_count rs = Inr n"
    by (auto simp: generate_html_report_def Let_def split: sum.splits)
  from assms pos obtain s where s: "score_sum rs = Inr s"
    by (auto simp: generate_html_report_def Let_def split: sum.splits if_splits)
  from assms obtain t where t: "time_sum rs = Inr t"
    by (auto simp: generate_html_report_def Let_def split: sum.splits)
  from assms obtain g where g: "group_loop rs [] = Inr g"
    by (auto simp: generate_html_report_def Let_def split: sum.splits)
  from passed_count_Inr[OF n] score_sum_Inr[OF s] time_sum_Inr[OF t] group_loop_Inr[OF g]
  show ?thesis by (auto simp: list_all_iff row_ok_def)
qed

lemma generate_html_report_ok:
  assumes ok: "list_all row_ok rs"
  shows "\<exists>cats. generate_html_report rs = Inr (overall_summary rs, cats) \<and>
           distinct (map fst cats) \<and>
           (\<forall>c. map_of cats c =
              (if rows_of c rs = [] then None else Some (category_summary_of (rows_of c rs))))"
proof -
  from ok have p: "list_all has_passed rs" and s: "list_all score_ok rs"
    and t: "list_all time_ok rs" and c: "list_all has_cat rs"
    by (auto simp: list_all_iff row_ok_def)
  from group_loop_ok[OF c, of "[]"] obtain g where g: "group_loop rs [] = Inr g"
    "distinct (map fst g)"
    "\<And>c. map_of g c = (if rows_of c rs = [] then None else Some (rows_of c rs))"
    by auto
  have rows: "list_all has_passed rows \<and> list_all score_ok rows" if "(c, rows) \<in> set g" for c rows
  proof -
    from that g(2) have "map_of g c = Some rows" by simp
    with g(3)[of c] have "rows = rows_of c rs" by (auto split: if_splits)
    with p s show ?thesis by (auto simp: rows_of_def list_all_iff)
  qed
  then have sl: "summarize_loop g = Inr (map (\<lambda>(c, rows). (c, category_summary_of rows)) g)"
    by (intro summarize_loop_ok) auto
  let ?cats = "map (\<lambda>(c, rows). (c, category_summary_of rows)) g"
  have fst: "map fst ?cats = map fst g" by (induction g) auto
  have mo: "map_of ?cats c = (if rows_of c rs = [] then None else Some (category_summary_of (rows_of c rs)))" for c
    by (simp add: map_of_map g(3))
  have gen: "generate_html_report rs = Inr (overall_summary rs, ?cats)"
  proof -
    have avg: "(if int (length rs) > 0
                then (case score_sum rs of Inl e \<Rightarrow> Inl e
                      | Inr s \<Rightarrow> Inr (s / of_int (int (length rs))))
                else Inr 0) =
               (Inr (if rs = [] then 0 else sum_list (map score_value rs) / of_int (int (length rs)))
                  :: error + rat)"
      by (simp add: score_sum_ok[OF s])
    show ?thesis
      unfolding generate_html_report_def overall_summary_def Let_def avg
        passed_count_ok[OF p] time_sum_ok[OF t] g(1)
      by (simp add: sl)
  qed
  have "distinct (map fst ?cats)" unfolding fst by (rule g(2))
  with gen mo show ?thesis by blast
qed

lemma scenario_report:
  "generate_html_report scenario = Inr (scenario_summary, scenario_categories)"
  by (simp add: generate_html_report_def summarize_category_def result_row_def scenario_def
        scenario_summary_def scenario_categories_def)

lemma passed_flag_bounds: "0 \<le> passed_flag r \<and> passed_flag r \<le> 1"
  by (simp add: passed_flag_def split: sum.splits)

lemma sum_passed_flag_bounds: "0 \<le> sum_list (map passed_flag rs) \<and> sum_list (map passed_flag rs) \<le> int (length rs)"
proof (induction rs)
  case Nil
  then show ?case by simp
next
  case (Cons r rs)
  with passed_flag_bounds[of r] show ?case by simp
qed



text \<open>
  Claim C9. The empty list gives \<open>tests_run = 0\<close>, a mean of 0 and no category, without
  error. Whenever the summaries are produced, the passed and the failed counts are not
  negative and add up to the number of tests, in the overall summary and in the summary of
  every category.
\<close>

theorem summary_counts_add_up:
  "generate_html_report [] =
     Inr (\<lparr>total_tests = 0, passed_tests = 0, failed_tests = 0, average_score = 0,
           total_time_s = 0\<rparr>, []) \<and>
   (generate_html_report rs = Inr (s, cats) \<longrightarrow>
      total_tests s = int (length rs) \<and>
      passed_tests s + failed_tests s = total_tests s \<and>
      0 \<le> passed_tests s \<and> 0 \<le> failed_tests s \<and>
      (\<forall>(c, cs) \<in> set cats.
          cat_passed cs + cat_failed cs = tests_run cs \<and>
          0 \<le> cat_passed cs \<and> 0 \<le> cat_failed cs))"
proof (intro conjI impI)
  show "generate_html_report [] =
     Inr (\<lparr>total_tests = 0, passed_tests = 0, failed_tests = 0, average_score = 0,
           total_time_s = 0\<rparr>, [])"
    by (simp add: generate_html_report_def)
next
  assume gen: "generate_html_report rs = Inr (s, cats)"
  from generate_html_report_ok[OF generate_html_report_Inr[OF gen]] gen
  have s: "s = overall_summary rs" and d: "distinct (map fst cats)"
    and m: "\<And>c. map_of cats c = (if rows_of c rs = [] then None else Some (category_summary_of (rows_of c rs)))"
    by auto
  show "total_tests s = int (length rs)" by (simp add: s overall_summary_def)
  show "passed_tests s + failed_tests s = total_tests s" by (simp add: s overall_summary_def)
  show "0 \<le> passed_tests s" using sum_passed_flag_bounds[of rs] by (simp add: s overall_summary_def)
  show "0 \<le> failed_tests s" using sum_passed_flag_bounds[of rs] by (simp add: s overall_summary_def)
  show "\<forall>(c, cs) \<in> set cats.
          cat_passed cs + cat_failed cs = tests_run cs \<and>
          0 \<le> cat_passed cs \<and> 0 \<le> cat_failed cs"
  proof (clarify, intro conjI)
    fix c cs assume "(c, cs) \<in> set cats"
    with d have "map_of cats c = Some cs" by simp
    with m[of c] have cs: "cs = category_summary_of (rows_of c rs)" by (auto split: if_splits)
    show "cat_passed cs + cat_failed cs = tests_run cs" by (simp add: cs category_summary_of_def)
    show "0 \<le> cat_passed cs" using sum_passed_flag_bounds[of "rows_of c rs"] by (simp add: cs category_summary_of_def)
    show "0 \<le> cat_failed cs" using sum_passed_flag_bounds[of "rows_of c rs"] by (simp add: cs category_summary_of_def)
  qed
qed

theorem summary_counts_add_up_witness:
  "total_tests scenario_summary = 3 \<and>
   passed_tests scenario_summary + failed_tests scenario_summary = total_tests scenario_summary \<and>
   cat_passed (the (map_of scenario_categories (PStr ''math''))) +
     cat_failed (the (map_of scenario_categories (PStr ''math''))) =
   tests_run (the (map_of scenario_categories (PStr ''math'')))"
proof -
  have m: "(PStr ''math'', the (map_of scenario_categories (PStr ''math''))) \<in> set scenario_categories"
    by (simp add: scenario_categories_def)
  from summary_counts_add_up[of scenario scenario_summary scenario_categories] scenario_report
  have "total_tests scenario_summary = int (length scenario)"
    and "passed_tests scenario_summary + failed_tests scenario_summary = total_tests scenario_summary"
    and "\<forall>(c, cs) \<in> set scenario_categories.
          cat_passed cs + cat_failed cs = tests_run cs \<and> 0 \<le> cat_passed cs \<and> 0 \<le> cat_failed cs"
    by blast+
  with m show ?thesis by (auto simp: scenario_def)
qed































lemma round_double_tenth: "round_double (1 / 10) = 3602879701896397 / 2 ^ 55"
  by code_simp

lemma fl_add_tenth_fifth:
  "fl_add (round_double (1 / 10)) (round_double (1 / 5)) = 1351079888211149 / 2 ^ 52"
  by code_simp








text \<open>
  Claim C5. \<open>generate_report\<close> raises on every non-empty list of \<open>TestResult\<close> objects,
  at the first subscription. A dictionary with no other keys than the fields of
  \<open>TestResult\<close> has no category, so the report raises on every non-empty list of such
  dictionaries as well.
\<close>

theorem generate_report_raises:
  "(results \<noteq> [] \<longrightarrow>
      generate_report results = Inl (TypeError ''TestResult object is not subscriptable'')) \<and>
   (rows \<noteq> [] \<and> (\<forall>r \<in> set rows. \<exists>d. r = Dict d \<and> dom d \<subseteq> set TestResult_fields) \<longrightarrow>
      (\<exists>e. generate_html_report rows = Inl e))"
proof (intro conjI impI)
  assume "results \<noteq> []"
  then obtain t ts where "results = t # ts" by (cases results) auto
  then show "generate_report results = Inl (TypeError ''TestResult object is not subscriptable'')"
    by (simp add: generate_report_def generate_html_report_def)
next
  assume a: "rows \<noteq> [] \<and> (\<forall>r \<in> set rows. \<exists>d. r = Dict d \<and> dom d \<subseteq> set TestResult_fields)"
  then obtain r where r: "r \<in> set rows" by (cases rows) auto
  with a obtain d where d: "r = Dict d" "dom d \<subseteq> set TestResult_fields" by blast
  have "''category'' \<notin> set TestResult_fields" by (simp add: TestResult_fields_def)
  with d have "d ''category'' = None" by blast
  with d have nc: "\<not> has_cat r" by (simp add: has_cat_def)
  show "\<exists>e. generate_html_report rows = Inl e"
  proof (cases "generate_html_report rows")
    case (Inl e)
    then show ?thesis by blast
  next
    case (Inr out)
    from generate_html_report_Inr[OF Inr] r have "row_ok r" by (simp add: list_all_iff)
    with nc show ?thesis by (simp add: row_ok_def)
  qed
qed

theorem generate_report_raises_witness:
  "generate_report [example_result] = Inl (TypeError ''TestResult object is not subscriptable'') \<and>
   (\<exists>e. generate_html_report
           [Dict [''test_id'' \<mapsto> PStr ''b'', ''passed'' \<mapsto> PNum 1, ''score'' \<mapsto> PNum 1,
                  ''execution_time_ms'' \<mapsto> PNum 250]] = Inl e)"
  using generate_report_raises[of "[example_result]"
      "[Dict [''test_id'' \<mapsto> PStr ''b'', ''passed'' \<mapsto> PNum 1, ''score'' \<mapsto> PNum 1,
              ''execution_time_ms'' \<mapsto> PNum 250]]"]
  by (simp add: TestResult_fields_def)

end
